theory Spec2Isabelle
  imports Complex_Main "HOL-Library.AList"
begin

section \<open>JavaScript values used by the dashboard\<close>

text \<open>
  The Summit frontend is TypeScript running on a JavaScript engine.  The parts of the
  language the verified functions rely on are written out here: numbers with their
  comparison operators, strings with \<open>trim\<close>, \<open>split\<close> and \<open>toLowerCase\<close>, truthiness,
  and the values a JSON body can decode to.

  A string is a list of characters.  Isabelle characters are eight bits wide, so the
  model covers the strings whose UTF-16 code units lie below 256; every string literal of
  the source is of that kind.
\<close>

subsection \<open>Numbers\<close>

text \<open>
  A JavaScript number is a finite double, an infinity or NaN.  The functions below only
  compare numbers against constants that are exact doubles (4, 5, 5.5, ..., 9.5), and a
  comparison of two finite doubles is the comparison of the reals they denote, so a
  finite number carries a real.  No arithmetic on fractions is modelled.
\<close>

datatype jsnum = Finite real | PosInf | NegInf | NaN

text \<open>\<open>a < b\<close>: false as soon as one side is NaN.\<close>

fun js_lt :: "jsnum \<Rightarrow> jsnum \<Rightarrow> bool" where
  "js_lt NaN _ = False"
| "js_lt _ NaN = False"
| "js_lt PosInf _ = False"
| "js_lt _ NegInf = False"
| "js_lt NegInf _ = True"
| "js_lt _ PosInf = True"
| "js_lt (Finite a) (Finite b) = (a < b)"

text \<open>\<open>a >= b\<close>: false when one side is NaN, otherwise the negation of \<open>a < b\<close>.\<close>

definition js_ge :: "jsnum \<Rightarrow> jsnum \<Rightarrow> bool" where
  "js_ge a b = (a \<noteq> NaN \<and> b \<noteq> NaN \<and> \<not> js_lt a b)"

text \<open>\<open>a <= b\<close> is \<open>b >= a\<close>.\<close>

definition js_le :: "jsnum \<Rightarrow> jsnum \<Rightarrow> bool" where
  "js_le a b = js_ge b a"

subsection \<open>Strings\<close>







section \<open>Analytics panel: letter grades\<close>

text \<open>
  \<^verbatim>\<open>
  function getLetterGrade(score: number): string {
    if (score >= 9.5) return "A+"
    if (score >= 9.0) return "A"
    ...
    if (score >= 4.0) return "D"
    return "F"
  }
  \<close>
\<close>

definition getLetterGrade :: "jsnum \<Rightarrow> string" where
  "getLetterGrade score =
     (if js_ge score (Finite 9.5) then ''A+''
      else if js_ge score (Finite 9.0) then ''A''
      else if js_ge score (Finite 8.5) then ''A-''
      else if js_ge score (Finite 8.0) then ''B+''
      else if js_ge score (Finite 7.5) then ''B''
      else if js_ge score (Finite 7.0) then ''B-''
      else if js_ge score (Finite 6.5) then ''C+''
      else if js_ge score (Finite 6.0) then ''C''
      else if js_ge score (Finite 5.5) then ''C-''
      else if js_ge score (Finite 5.0) then ''D+''
      else if js_ge score (Finite 4.0) then ''D''
      else ''F'')"

text \<open>
  The order of the grades, worst first.  \<open>gradeRank\<close> is the position of a grade in that
  order; it is how "a lower grade" is read.
\<close>

definition gradeOrder :: "string list" where
  "gradeOrder =
     [''F'', ''D'', ''D+'', ''C-'', ''C'', ''C+'', ''B-'', ''B'', ''B+'', ''A-'', ''A'', ''A+'']"

fun index_of :: "'a \<Rightarrow> 'a list \<Rightarrow> nat" where
  "index_of x [] = 0"
| "index_of x (y # ys) = (if x = y then 0 else Suc (index_of x ys))"

definition gradeRank :: "string \<Rightarrow> nat" where
  "gradeRank g = index_of g gradeOrder"

text \<open>A numeric score is a number other than NaN ("not a number").\<close>

definition numeric :: "jsnum \<Rightarrow> bool" where
  "numeric x = (x \<noteq> NaN)"

section \<open>Analytics panel: language distribution and issues by severity\<close>

text \<open>
  The analysis response, as the panel declares it (\<open>CodeQualityResponse\<close>).  A
  \<open>Record<string, T>\<close> is a list of key and value pairs with distinct keys, in the order
  \<open>Object.keys\<close> and \<open>Object.values\<close> enumerate them.
\<close>

record ChunkAnalysis =
  content_type :: string
  chunk_context :: string
  quality_score :: jsnum
  chunk_insights :: string
  chunk_suggestions :: string

record FileAnalysis =
  lint_score :: jsnum
  chunks :: "(string \<times> ChunkAnalysis) list"
  recent_changes :: string
  insights :: string
  suggestions :: string
  repo_context :: string

text \<open>
  The entries both functions build: \<open>{ name, color, count }\<close>, and the same with a
  \<open>percentage\<close>.
\<close>

record bucket =
  name :: string
  color :: string
  count :: nat

record bucket_pct = bucket +
  percentage :: nat

text \<open>\<open>entries[i].count++\<close>.  Both functions call it with an index inside the array.\<close>

definition increment :: "nat \<Rightarrow> 'a bucket_scheme list \<Rightarrow> 'a bucket_scheme list" where
  "increment i bs = bs[i := (bs ! i)\<lparr>count := count (bs ! i) + 1\<rparr>]"








text \<open>
  \<^verbatim>\<open>
  function calculateIssuesBySeverity(fileAnalyses: Record<string, FileAnalysis>) {
    const issues = [ { name: "Critical", color: "#ef4444", count: 0, percentage: 0 }, ... ]
    Object.values(fileAnalyses).forEach((analysis) => {
      Object.values(analysis.chunks).forEach((chunk) => {
        if (chunk.quality_score < 5) issues[0].count++
        else if (chunk.quality_score < 7) issues[1].count++
        else if (chunk.quality_score < 9) issues[2].count++
      })
    })
    const total = issues.reduce((sum, issue) => sum + issue.count, 0)
    if (total === 0) return issues
    return issues.map((issue) => ({
      ...issue, percentage: Math.round((issue.count / total) * 100) || 0 }))
  }
  \<close>
\<close>

definition issues0 :: "bucket_pct list" where
  "issues0 =
     [\<lparr>name = ''Critical'', color = ''#ef4444'', count = 0, percentage = 0\<rparr>,
      \<lparr>name = ''Major'', color = ''#f97316'', count = 0, percentage = 0\<rparr>,
      \<lparr>name = ''Minor'', color = ''#eab308'', count = 0, percentage = 0\<rparr>]"

definition countSeverity :: "ChunkAnalysis \<Rightarrow> bucket_pct list \<Rightarrow> bucket_pct list" where
  "countSeverity chunk issues =
     (if js_lt (quality_score chunk) (Finite 5) then increment 0 issues
      else if js_lt (quality_score chunk) (Finite 7) then increment 1 issues
      else if js_lt (quality_score chunk) (Finite 9) then increment 2 issues
      else issues)"

definition calculateIssuesBySeverity ::
    "(nat \<Rightarrow> nat \<Rightarrow> nat) \<Rightarrow> (string \<times> FileAnalysis) list \<Rightarrow> bucket_pct list" where
  "calculateIssuesBySeverity roundPercent fileAnalyses =
     (let issues =
            fold (\<lambda>analysis. fold countSeverity (map snd (chunks analysis)))
              (map snd fileAnalyses) issues0;
          total = foldl (\<lambda>sum issue. sum + count issue) 0 issues
      in if total = 0 then issues
         else map (\<lambda>issue. issue\<lparr>percentage := roundPercent (count issue) total\<rparr>) issues)"

text \<open>
  The quality scores of all chunks of all files, in the order the two loops visit them,
  and the number of scores of a list that satisfy a condition.
\<close>

definition qualityScores :: "(string \<times> FileAnalysis) list \<Rightarrow> jsnum list" where
  "qualityScores fileAnalyses =
     concat (map (\<lambda>analysis. map (\<lambda>chunk. quality_score (snd chunk)) (chunks analysis))
       (map snd fileAnalyses))"

definition scoresWhere :: "(jsnum \<Rightarrow> bool) \<Rightarrow> jsnum list \<Rightarrow> nat" where
  "scoresWhere P qs = length (filter P qs)"

text \<open>A small analysis response to run the functions on.\<close>

definition exampleChunk :: "real \<Rightarrow> ChunkAnalysis" where
  "exampleChunk q =
     \<lparr>content_type = ''function'', chunk_context = ''helper'', quality_score = Finite q,
      chunk_insights = ''fine'', chunk_suggestions = ''none''\<rparr>"

definition exampleFile :: "(string \<times> ChunkAnalysis) list \<Rightarrow> FileAnalysis" where
  "exampleFile cs =
     \<lparr>lint_score = Finite 9, chunks = cs, recent_changes = ''none'', insights = ''fine'',
      suggestions = ''none'', repo_context = ''demo''\<rparr>"

section \<open>Chat interface\<close>

subsection \<open>More of the language: trimming, truthiness, printing a number\<close>

text \<open>
  \<open>s.trim()\<close> removes white space and line terminators at both ends.  Among the
  characters below 256 those are tab, line feed, vertical tab, form feed, carriage return,
  space and the no-break space.
\<close>

definition js_whitespace :: "char \<Rightarrow> bool" where
  "js_whitespace c =
     (c \<in> set [CHR 0x09, CHR 0x0A, CHR 0x0B, CHR 0x0C, CHR 0x0D, CHR 0x20, CHR 0xA0])"

definition js_trim :: "string \<Rightarrow> string" where
  "js_trim s = rev (dropWhile js_whitespace (rev (dropWhile js_whitespace s)))"

text \<open>
  A value of type \<open>string | null\<close> (or \<open>string | undefined\<close>) is an optional string; it
  is truthy when it is a string that is not empty.
\<close>

definition truthy :: "string option \<Rightarrow> bool" where
  "truthy v = (case v of None \<Rightarrow> False | Some s \<Rightarrow> s \<noteq> [])"

text \<open>\<open>a || b\<close> for a left side of that type and a string on the right.\<close>

definition orElse :: "string option \<Rightarrow> string \<Rightarrow> string" where
  "orElse v d = (case v of None \<Rightarrow> d | Some s \<Rightarrow> if s = [] then d else s)"

text \<open>\<open>n.toString()\<close> for a natural number: its decimal digits.\<close>

definition digitChar :: "nat \<Rightarrow> char" where
  "digitChar d = ''0123456789'' ! d"

function natToString :: "nat \<Rightarrow> string" where
  "natToString n =
     (if n < 10 then [digitChar n] else natToString (n div 10) @ [digitChar (n mod 10)])"
  by pat_completeness auto
termination
  by (relation "measure id") auto

declare natToString.simps [simp del]

subsection \<open>State of the component\<close>

text \<open>
  \<^verbatim>\<open>
  interface Message { id: string; role: "user" | "assistant"; content: string; timestamp: Date }
  \<close>
  The clock (\<open>Date.now()\<close>, \<open>new Date()\<close>) is read in milliseconds; every handler below
  receives the reading as its argument \<open>now\<close>.
\<close>

datatype Role = User | Assistant

record Message =
  msg_id :: string
  role :: Role
  content :: string
  timestamp :: nat

record Toast =
  title :: string
  description :: string
  variant :: string

text \<open>
  The request \<open>handleSendMessage\<close> posts: the URL, the two headers and the JSON body
  (\<open>question\<close>, \<open>repository\<close>, \<open>messages\<close>, \<open>conversation_id\<close>).
\<close>

record ChatRequest =
  url :: string
  headers :: "(string \<times> string) list"
  question :: string
  repository :: string
  prior_messages :: "(Role \<times> string) list"
  conversation_id :: "string option"

text \<open>
  How the request ends.  \<open>Thrown\<close>: \<open>fetch\<close> or \<open>response.json()\<close> rejected, or the body
  decoded to \<open>null\<close> and reading \<open>data.response\<close> threw; it carries the message of the error
  when the thrown value is an \<open>Error\<close>.  \<open>NotOk\<close>: a response whose \<open>ok\<close> is false, with its
  status text.  \<open>Ok\<close>: any other body, of which the handler reads \<open>response\<close> and
  \<open>conversation_id\<close> (strings when present, as the backend's contract has them).
\<close>

record ChatData =
  response :: "string option"
  issued_conversation_id :: "string option"

datatype ChatOutcome = Thrown "string option" | NotOk string | Ok ChatData

text \<open>
  The props (\<open>selectedRepo\<close>, \<open>githubToken\<close>), the state hooks, the build-time
  environment variable, and what the component has done to the outside: the toasts shown,
  the requests sent, those still awaiting their response, and the responses received
  with the request each answers.
\<close>

record ChatState =
  selectedRepo :: "string option"
  githubToken :: "string option"
  backendApiUrlEnv :: "string option"
  messages :: "Message list"
  input :: string
  isLoading :: bool
  conversationId :: "string option"
  toasts :: "Toast list"
  sent :: "ChatRequest list"
  inFlight :: "ChatRequest list"
  answered :: "(ChatRequest \<times> ChatOutcome) list"

definition initialChat :: "string option \<Rightarrow> ChatState" where
  "initialChat env =
     \<lparr>selectedRepo = None, githubToken = None, backendApiUrlEnv = env, messages = [],
      input = [], isLoading = False, conversationId = None, toasts = [], sent = [],
      inFlight = [], answered = []\<rparr>"

subsection \<open>The effect on \<open>selectedRepo\<close>\<close>

text \<open>
  \<^verbatim>\<open>
  useEffect(() => {
    if (selectedRepo) {
      setMessages([{ id: "welcome", role: "assistant", content: `Welcome to the ...`, ... }])
      setConversationId(null) // Reset conversation ID when repo changes
    } else {
      setMessages([])
      setConversationId(null)
    }
  }, [selectedRepo])
  \<close>
  The effect runs when the prop changes its value; selecting the repository that is
  already selected changes nothing.
\<close>

definition welcomeMessage :: "string \<Rightarrow> nat \<Rightarrow> Message" where
  "welcomeMessage repo now =
     \<lparr>msg_id = ''welcome'', role = Assistant,
      content = ''Welcome to the '' @ repo @
        '' repository chat! I will focus on analyzing the existing files and structure within this repository. How can I assist you today?'',
      timestamp = now\<rparr>"

definition repoEffect :: "nat \<Rightarrow> ChatState \<Rightarrow> ChatState" where
  "repoEffect now st =
     (if truthy (selectedRepo st)
      then st\<lparr>messages := [welcomeMessage (the (selectedRepo st)) now], conversationId := None\<rparr>
      else st\<lparr>messages := [], conversationId := None\<rparr>)"

definition selectRepo :: "string option \<Rightarrow> nat \<Rightarrow> ChatState \<Rightarrow> ChatState" where
  "selectRepo repo now st =
     (if selectedRepo st = repo then st else repoEffect now (st\<lparr>selectedRepo := repo\<rparr>))"

subsection \<open>\<open>handleSendMessage\<close>\<close>

text \<open>
  \<^verbatim>\<open>
  const handleSendMessage = async () => {
    if (!input.trim() || !selectedRepo) return
    if (!githubToken) { toast({ title: "Authentication required", ... }); return }
    const userMessage = { id: Date.now().toString(), role: "user", content: input, ... }
    setMessages((prev) => [...prev, userMessage])
    setInput("")
    setIsLoading(true)
    try {
      const response = await fetch(`${backendApiUrl}/api/chat`, { method: "POST", headers: ...,
        body: JSON.stringify({ question: input, repository: selectedRepo,
          messages: messages.map(msg => ({ role: msg.role, content: msg.content })),
          conversation_id: conversationId }) })
      if (!response.ok) throw new Error(`API error: ${response.statusText}`)
      const data = await response.json()
      const assistantMessage = { id: (Date.now() + 1).toString(), role: "assistant",
        content: data.response || "Sorry, I couldn't analyze that. Please try again.", ... }
      setMessages((prev) => [...prev, assistantMessage])
      if (data.conversation_id) setConversationId(data.conversation_id)
    } catch (error) {
      const errorMessage = { id: (Date.now() + 1).toString(), role: "assistant",
        content: "Sorry, there was an error processing your request. Please try again later.", ... }
      setMessages((prev) => [...prev, errorMessage])
      toast({ title: "Chat error",
        description: error instanceof Error ? error.message : "Unknown error occurred", ... })
    } finally {
      setIsLoading(false)
    }
  }
  \<close>
  The function is asynchronous: it runs up to \<open>await fetch\<close>, and the rest runs when the
  response arrives, on the state of that moment (the setters take the previous state).
  \<open>handleSendMessage\<close> is the first part and \<open>settle\<close> the second; other events of the
  page can happen in between.
\<close>

definition backendApiUrl :: "string option \<Rightarrow> string" where
  "backendApiUrl env = orElse env ''http://localhost:8000''"

definition chatRequest :: "ChatState \<Rightarrow> ChatRequest" where
  "chatRequest st =
     \<lparr>url = backendApiUrl (backendApiUrlEnv st) @ ''/api/chat'',
      headers = [(''Content-Type'', ''application/json''),
                 (''Authorization'', ''Bearer '' @ the (githubToken st))],
      question = input st,
      repository = the (selectedRepo st),
      prior_messages = map (\<lambda>msg. (role msg, content msg)) (messages st),
      conversation_id = conversationId st\<rparr>"

definition userMessage :: "string \<Rightarrow> nat \<Rightarrow> Message" where
  "userMessage text now =
     \<lparr>msg_id = natToString now, role = User, content = text, timestamp = now\<rparr>"

definition authenticationToast :: Toast where
  "authenticationToast =
     \<lparr>title = ''Authentication required'',
      description = ''Please sign in with GitHub to use the chat feature'',
      variant = ''destructive''\<rparr>"

definition handleSendMessage :: "nat \<Rightarrow> ChatState \<Rightarrow> ChatState" where
  "handleSendMessage now st =
     (if js_trim (input st) = [] \<or> \<not> truthy (selectedRepo st) then st
      else if \<not> truthy (githubToken st) then st\<lparr>toasts := toasts st @ [authenticationToast]\<rparr>
      else st\<lparr>messages := messages st @ [userMessage (input st) now],
              input := [],
              isLoading := True,
              sent := sent st @ [chatRequest st],
              inFlight := inFlight st @ [chatRequest st]\<rparr>)"

definition assistantMessage :: "ChatData \<Rightarrow> nat \<Rightarrow> Message" where
  "assistantMessage data now =
     \<lparr>msg_id = natToString (now + 1), role = Assistant,
      content = orElse (response data) ''Sorry, I couldn't analyze that. Please try again.'',
      timestamp = now\<rparr>"

definition errorMessage :: "nat \<Rightarrow> Message" where
  "errorMessage now =
     \<lparr>msg_id = natToString (now + 1), role = Assistant,
      content = ''Sorry, there was an error processing your request. Please try again later.'',
      timestamp = now\<rparr>"

definition chatErrorToast :: "string option \<Rightarrow> Toast" where
  "chatErrorToast msg =
     \<lparr>title = ''Chat error'',
      description = (case msg of Some m \<Rightarrow> m | None \<Rightarrow> ''Unknown error occurred''),
      variant = ''destructive''\<rparr>"

text \<open>The \<open>catch\<close> block, for a thrown error with the given message.\<close>

definition catchBlock :: "string option \<Rightarrow> nat \<Rightarrow> ChatState \<Rightarrow> ChatState" where
  "catchBlock msg now st =
     st\<lparr>messages := messages st @ [errorMessage now],
        toasts := toasts st @ [chatErrorToast msg]\<rparr>"

text \<open>What follows \<open>await fetch\<close>, for each way the request can end.\<close>

definition afterFetch :: "ChatOutcome \<Rightarrow> nat \<Rightarrow> ChatState \<Rightarrow> ChatState" where
  "afterFetch outcome now st =
     (case outcome of
        Thrown msg \<Rightarrow> catchBlock msg now st
      | NotOk statusText \<Rightarrow> catchBlock (Some (''API error: '' @ statusText)) now st
      | Ok data \<Rightarrow>
          (let st' = st\<lparr>messages := messages st @ [assistantMessage data now]\<rparr>
           in if truthy (issued_conversation_id data)
              then st'\<lparr>conversationId := issued_conversation_id data\<rparr>
              else st'))\<lparr>isLoading := False\<rparr>"

text \<open>
  The \<open>k\<close>-th request in flight ends with \<open>outcome\<close>: it leaves the requests in flight, the
  response is recorded against it, and the rest of its handler runs.
\<close>

definition settle :: "nat \<Rightarrow> ChatOutcome \<Rightarrow> nat \<Rightarrow> ChatState \<Rightarrow> ChatState" where
  "settle k outcome now st =
     (if k < length (inFlight st)
      then afterFetch outcome now
             (st\<lparr>inFlight := take k (inFlight st) @ drop (Suc k) (inFlight st),
                 answered := answered st @ [(inFlight st ! k, outcome)]\<rparr>)
      else st)"


subsection \<open>Events of the page\<close>

text \<open>
  What can happen to the component, one event at a time: the page selects a repository
  or changes the token, the user types, the user submits (the button or the Enter key), a
  request in flight ends.
\<close>

datatype ChatEvent =
    SelectRepo "string option" nat
  | SetToken "string option"
  | SetInput string
  | Submit nat
  | Settle nat ChatOutcome nat

fun chatStep :: "ChatEvent \<Rightarrow> ChatState \<Rightarrow> ChatState" where
  "chatStep (SelectRepo repo now) st = selectRepo repo now st"
| "chatStep (SetToken token) st = st\<lparr>githubToken := token\<rparr>"
| "chatStep (SetInput text) st = st\<lparr>input := text\<rparr>"
| "chatStep (Submit now) st = handleSendMessage now st"
| "chatStep (Settle k outcome now) st = settle k outcome now st"

definition chatRun :: "ChatEvent list \<Rightarrow> ChatState \<Rightarrow> ChatState" where
  "chatRun events st = fold chatStep events st"


subsection \<open>Runs of the chat interface\<close>


definition blankChat :: ChatState where
  "blankChat =
     chatRun [SetToken (Some ''ghp_token''), SelectRepo (Some ''octo/demo'') 1,
              SetInput [CHR 0x20, CHR 0x09, CHR 0x0A]]
       (initialChat None)"


definition crossedChat :: ChatState where
  "crossedChat =
     chatRun [SetToken (Some ''ghp_token''),
              SelectRepo (Some ''octo/alpha'') 1, SetInput ''q1'', Submit 2,
              SelectRepo (Some ''octo/beta'') 3,
              Settle 0 (Ok \<lparr>response = Some ''a1'', issued_conversation_id = Some ''conv-alpha''\<rparr>) 4,
              SetInput ''q2'', Submit 5]
       (initialChat None)"

subsection \<open>Conversation ids and the repositories they were issued for\<close>

text \<open>
  A conversation id was issued for a repository when some response received so far
  carried it and answered a request that named that repository.
\<close>

definition issuedFor :: "(ChatRequest \<times> ChatOutcome) list \<Rightarrow> string \<Rightarrow> string \<Rightarrow> bool" where
  "issuedFor responses cid repo =
     list_ex (\<lambda>a. repository (fst a) = repo \<and>
                  (case snd a of Ok data \<Rightarrow> issued_conversation_id data = Some cid | _ \<Rightarrow> False))
       responses"

text \<open>
  The ids match the repositories: the stored conversation id was issued for the selected
  repository, every request in flight names the selected repository, and every request
  sent with a conversation id names a repository the id was issued for.
\<close>

definition idsMatchRepositories :: "ChatState \<Rightarrow> bool" where
  "idsMatchRepositories st =
     ((case conversationId st of
         None \<Rightarrow> True
       | Some cid \<Rightarrow>
           (case selectedRepo st of
              None \<Rightarrow> False
            | Some repo \<Rightarrow> issuedFor (answered st) cid repo))
      \<and> list_all (\<lambda>req. selectedRepo st = Some (repository req)) (inFlight st)
      \<and> list_all (\<lambda>req. case conversation_id req of
                           None \<Rightarrow> True
                         | Some cid \<Rightarrow> issuedFor (answered st) cid (repository req)) (sent st))"

text \<open>
  Events in order: the repository is only changed while no request is in flight, so no
  response arrives for a repository that is no longer selected.
\<close>

fun inOrder :: "ChatEvent list \<Rightarrow> ChatState \<Rightarrow> bool" where
  "inOrder [] st = True"
| "inOrder (e # es) st =
     ((case e of SelectRepo repo now \<Rightarrow> inFlight st = [] | _ \<Rightarrow> True)
      \<and> inOrder es (chatStep e st))"

section \<open>Repository sidebar\<close>

subsection \<open>Decoded JSON\<close>











subsection \<open>\<open>fetchRepositories\<close>: the request\<close>

text \<open>
  The repository holds two versions of the sidebar.  Both call
  \<open>GET /api/repositories\<close> when the token is truthy, and nothing otherwise.
  \<^verbatim>\<open>
  // first version
  const backendApiUrl = process.env.NEXT_PUBLIC_BACKEND_API_URL || "http://localhost:8000";
  const response = await fetch(`${backendApiUrl}/api/repositories`, {
    method: "GET",
    headers: { "Content-Type": "application/json", Authorization: `Bearer ${githubToken}` } })
  // second version
  export const API_BASE_URL = process.env.NEXT_PUBLIC_API_URL || "http://localhost:8000"
  const response = await fetch(`${API_BASE_URL}/api/repositories`, {
    method: "GET",
    headers: { "Content-Type": "application/json", "GitHub-Token": githubToken } });
  \<close>
\<close>

record HttpRequest =
  http_method :: string
  http_url :: string
  http_headers :: "(string \<times> string) list"

definition API_BASE_URL :: "string option \<Rightarrow> string" where
  "API_BASE_URL env = orElse env ''http://localhost:8000''"

definition repositoriesRequestBearer :: "string option \<Rightarrow> string option \<Rightarrow> HttpRequest option" where
  "repositoriesRequestBearer env githubToken' =
     (if \<not> truthy githubToken' then None
      else Some \<lparr>http_method = ''GET'',
                 http_url = backendApiUrl env @ ''/api/repositories'',
                 http_headers = [(''Content-Type'', ''application/json''),
                                 (''Authorization'', ''Bearer '' @ the githubToken')]\<rparr>)"

definition repositoriesRequestCustom :: "string option \<Rightarrow> string option \<Rightarrow> HttpRequest option" where
  "repositoriesRequestCustom env githubToken' =
     (if \<not> truthy githubToken' then None
      else Some \<lparr>http_method = ''GET'',
                 http_url = API_BASE_URL env @ ''/api/repositories'',
                 http_headers = [(''Content-Type'', ''application/json''),
                                 (''GitHub-Token'', the githubToken')]\<rparr>)"

text \<open>
  The token a request carries as a bearer credential (the text after \<open>Bearer \<close> in its
  \<open>Authorization\<close> header), and the one it carries in the header \<open>GitHub-Token\<close>.
\<close>

definition bearerToken :: "HttpRequest \<Rightarrow> string option" where
  "bearerToken req =
     (case map_of (http_headers req) ''Authorization'' of
        None \<Rightarrow> None
      | Some v \<Rightarrow> if take 7 v = ''Bearer '' then Some (drop 7 v) else None)"

definition customToken :: "HttpRequest \<Rightarrow> string option" where
  "customToken req = map_of (http_headers req) ''GitHub-Token''"

subsection \<open>\<open>fetchRepositories\<close>: the response (second version)\<close>











subsection \<open>Shapes of a response body\<close>










section \<open>Backend, from its specification\<close>

text \<open>
  The backend (a FastAPI service) is not among the source files; its test scripts and the
  clients of its HTTP interface are.  What the claims about it need is modelled here from
  the specification, sections 3, 4.1, 4.2, 6 and 7.
\<close>

subsection \<open>Conversation Store\<close>

text \<open>
  Modelled from the spec: the data model of section 3.  A message is
  \<open>{ role, content, timestamp }\<close>; a conversation is \<open>{ id, repository, messages }\<close>.  The
  specification fixes of a conversation id only that it is unique; ids are numbers here.
\<close>

record StoredMessage =
  stored_role :: Role
  stored_content :: string
  stored_timestamp :: nat

record Conversation =
  conv_id :: nat
  conv_repository :: string
  conv_messages :: "StoredMessage list"

text \<open>
  Modelled from the spec: the Conversation Store of section 4.1, a mapping from
  conversation id to conversation that lasts for the lifetime of the process and never
  deletes.  It is the list of its conversations in creation order.
\<close>

type_synonym ConversationStore = "Conversation list"

datatype StoreError = NotFound

text \<open>
  Modelled from the spec: \<open>create(repository) -> conversation_id\<close> "generates a fresh unique
  id, registers an empty conversation for repository".  Conversations are never deleted,
  so the number of conversations created so far, plus one, is an id no conversation has.
\<close>

definition store_create :: "string \<Rightarrow> ConversationStore \<Rightarrow> nat \<times> ConversationStore" where
  "store_create repo store =
     (Suc (length store),
      store @ [\<lparr>conv_id = Suc (length store), conv_repository = repo, conv_messages = []\<rparr>])"

text \<open>Modelled from the spec: \<open>get(conversation_id)\<close> "fails with NotFound if absent".\<close>

definition store_get :: "nat \<Rightarrow> ConversationStore \<Rightarrow> StoreError + Conversation" where
  "store_get cid store =
     (case find (\<lambda>c. conv_id c = cid) store of None \<Rightarrow> Inl NotFound | Some c \<Rightarrow> Inr c)"

text \<open>
  Modelled from the spec: \<open>append(conversation_id, message)\<close> "fails with NotFound if id
  unknown.  Appends to the end of the message sequence."
\<close>

definition store_append ::
    "nat \<Rightarrow> StoredMessage \<Rightarrow> ConversationStore \<Rightarrow> StoreError + ConversationStore" where
  "store_append cid msg store =
     (case store_get cid store of
        Inl e \<Rightarrow> Inl e
      | Inr _ \<Rightarrow>
          Inr (map (\<lambda>c. if conv_id c = cid then c\<lparr>conv_messages := conv_messages c @ [msg]\<rparr> else c)
                 store))"

text \<open>
  Modelled from the spec: \<open>listByRepository(repository)\<close> "returns empty sequence (not an
  error) if none exist", in creation order.
\<close>

definition listByRepository :: "string \<Rightarrow> ConversationStore \<Rightarrow> Conversation list" where
  "listByRepository repo store = filter (\<lambda>c. conv_repository c = repo) store"

subsection \<open>Chat Orchestrator\<close>

text \<open>
  Modelled from the spec: the agent of section 4.2, a black box that is given the
  repository name and the conversation's history (role and content pairs) and answers or
  fails (timeout, error, malformed response).
\<close>

datatype AgentReply = Answer string | AgentFailed

type_synonym Agent = "string \<Rightarrow> (Role \<times> string) list \<Rightarrow> AgentReply"

text \<open>Modelled from the spec: the error results of section 7 that \<open>chat\<close> can return.\<close>

datatype ChatError = ValidationError | UpstreamUnavailable | ConversationNotFound

text \<open>
  Modelled from the spec: the arguments of
  \<open>chat(question, repository, priorMessages, conversationId)\<close>, and the time of the call.
\<close>

record ChatCall =
  call_question :: string
  call_repository :: string
  call_priorMessages :: "StoredMessage list"
  call_conversationId :: "nat option"
  call_time :: nat

text \<open>
  Modelled from the spec: the contract of \<open>chat\<close>, section 4.2.  An empty question is
  rejected before the store is touched.  Step 1: a conversation id that resolves is used,
  "otherwise create a new conversation for repository"; the prior messages are advisory
  and not stored.  Step 2: the user's message is appended.  Steps 3 and 4: the agent is
  asked with the repository and the history.  Step 5: on success the answer is appended
  and returned with the conversation id.  Step 6: on failure nothing more is appended and
  an error is returned.
\<close>

definition resolveConversation :: "ChatCall \<Rightarrow> ConversationStore \<Rightarrow> nat \<times> ConversationStore" where
  "resolveConversation call store =
     (case call_conversationId call of
        None \<Rightarrow> store_create (call_repository call) store
      | Some cid \<Rightarrow>
          (case store_get cid store of
             Inr _ \<Rightarrow> (cid, store)
           | Inl _ \<Rightarrow> store_create (call_repository call) store))"

definition history :: "nat \<Rightarrow> ConversationStore \<Rightarrow> (Role \<times> string) list" where
  "history cid store =
     (case store_get cid store of
        Inl _ \<Rightarrow> []
      | Inr c \<Rightarrow> map (\<lambda>m. (stored_role m, stored_content m)) (conv_messages c))"

definition chat ::
    "Agent \<Rightarrow> ChatCall \<Rightarrow> ConversationStore \<Rightarrow> ConversationStore \<times> (ChatError + string \<times> nat)" where
  "chat agent call store =
     (if call_question call = [] then (store, Inl ValidationError)
      else
        (let (cid, store1) = resolveConversation call store;
             question = \<lparr>stored_role = User, stored_content = call_question call,
                         stored_timestamp = call_time call\<rparr>
         in case store_append cid question store1 of
              Inl _ \<Rightarrow> (store1, Inl ConversationNotFound)
            | Inr store2 \<Rightarrow>
                (case agent (call_repository call) (history cid store2) of
                   AgentFailed \<Rightarrow> (store2, Inl UpstreamUnavailable)
                 | Answer answer \<Rightarrow>
                     (case store_append cid
                             \<lparr>stored_role = Assistant, stored_content = answer,
                              stored_timestamp = call_time call\<rparr> store2 of
                        Inl _ \<Rightarrow> (store2, Inl ConversationNotFound)
                      | Inr store3 \<Rightarrow> (store3, Inr (answer, cid))))))"

text \<open>
  A sequence of calls, one after the other on the store the one before left (appends to
  one conversation are serialized, section 5): the results in call order.
\<close>

fun chatCalls ::
    "Agent \<Rightarrow> ConversationStore \<Rightarrow> ChatCall list \<Rightarrow> (ChatError + string \<times> nat) list" where
  "chatCalls agent store [] = []"
| "chatCalls agent store (call # calls) =
     snd (chat agent call store) # chatCalls agent (fst (chat agent call store)) calls"

text \<open>The ids in a store are those issued so far: none exceeds the number of conversations.\<close>

definition issuedSoFar :: "ConversationStore \<Rightarrow> bool" where
  "issuedSoFar store = list_all (\<lambda>c. conv_id c \<le> length store) store"

text \<open>An agent that always answers, and three calls to run.\<close>

definition echoAgent :: Agent where
  "echoAgent repo turns = Answer (''About '' @ repo)"

definition demoCalls :: "ChatCall list" where
  "demoCalls =
     [\<lparr>call_question = ''What is this repo about?'', call_repository = ''octo/demo'',
       call_priorMessages = [], call_conversationId = None, call_time = 1\<rparr>,
      \<lparr>call_question = ''And its tests?'', call_repository = ''octo/demo'',
       call_priorMessages = [], call_conversationId = Some 1, call_time = 2\<rparr>,
      \<lparr>call_question = ''What is this one about?'', call_repository = ''octo/other'',
       call_priorMessages = [], call_conversationId = None, call_time = 3\<rparr>]"

subsection \<open>Health endpoint\<close>






section \<open>Verified properties: analytics panel\<close>

subsection \<open>Properties of the letter grades\<close>

lemma gradeRank_simps:
  "gradeRank ''F'' = 0" "gradeRank ''D'' = 1" "gradeRank ''D+'' = 2" "gradeRank ''C-'' = 3"
  "gradeRank ''C'' = 4" "gradeRank ''C+'' = 5" "gradeRank ''B-'' = 6" "gradeRank ''B'' = 7"
  "gradeRank ''B+'' = 8" "gradeRank ''A-'' = 9" "gradeRank ''A'' = 10" "gradeRank ''A+'' = 11"
  by (simp_all add: gradeRank_def gradeOrder_def)

lemma getLetterGrade_Finite:
  "(getLetterGrade (Finite x) = ''A+'') = (9.5 \<le> x)"
  "(getLetterGrade (Finite x) = ''A'') = (9.0 \<le> x \<and> x < 9.5)"
  "(getLetterGrade (Finite x) = ''A-'') = (8.5 \<le> x \<and> x < 9.0)"
  "(getLetterGrade (Finite x) = ''B+'') = (8.0 \<le> x \<and> x < 8.5)"
  "(getLetterGrade (Finite x) = ''B'') = (7.5 \<le> x \<and> x < 8.0)"
  "(getLetterGrade (Finite x) = ''B-'') = (7.0 \<le> x \<and> x < 7.5)"
  "(getLetterGrade (Finite x) = ''C+'') = (6.5 \<le> x \<and> x < 7.0)"
  "(getLetterGrade (Finite x) = ''C'') = (6.0 \<le> x \<and> x < 6.5)"
  "(getLetterGrade (Finite x) = ''C-'') = (5.5 \<le> x \<and> x < 6.0)"
  "(getLetterGrade (Finite x) = ''D+'') = (5.0 \<le> x \<and> x < 5.5)"
  "(getLetterGrade (Finite x) = ''D'') = (4.0 \<le> x \<and> x < 5.0)"
  "(getLetterGrade (Finite x) = ''F'') = (x < 4.0)"
  by (auto simp add: getLetterGrade_def js_ge_def not_less)

lemma getLetterGrade_infinite:
  "getLetterGrade PosInf = ''A+''" "getLetterGrade NegInf = ''F''"
  by (simp_all add: getLetterGrade_def js_ge_def)

text \<open>The rank of a finite score's grade, as a count of the thresholds it reaches.\<close>

lemma gradeRank_Finite:
  "gradeRank (getLetterGrade (Finite x)) =
     (if 9.5 \<le> x then 11 else if 9 \<le> x then 10 else if 8.5 \<le> x then 9
      else if 8 \<le> x then 8 else if 7.5 \<le> x then 7 else if 7 \<le> x then 6
      else if 6.5 \<le> x then 5 else if 6 \<le> x then 4 else if 5.5 \<le> x then 3
      else if 5 \<le> x then 2 else if 4 \<le> x then 1 else 0)"
  by (simp add: getLetterGrade_def js_ge_def gradeRank_simps not_less)

lemma gradeRank_mono_Finite:
  "x \<le> y \<Longrightarrow>
     gradeRank (getLetterGrade (Finite x)) \<le> gradeRank (getLetterGrade (Finite y))"
  unfolding gradeRank_Finite by (simp split: if_splits)

lemma gradeRank_mono:
  "js_le s s' \<Longrightarrow> gradeRank (getLetterGrade s) \<le> gradeRank (getLetterGrade s')"
proof (cases s)
  case (Finite x)
  assume le: "js_le s s'"
  show ?thesis
  proof (cases s')
    case (Finite y)
    with \<open>s = Finite x\<close> le have "x \<le> y"
      by (simp add: js_le_def js_ge_def)
    then show ?thesis
      using \<open>s = Finite x\<close> Finite by (simp only: gradeRank_mono_Finite)
  next
    case PosInf
    then show ?thesis
      by (simp add: getLetterGrade_infinite gradeRank_simps \<open>s = Finite x\<close> gradeRank_Finite)
  next
    case NegInf
    with \<open>s = Finite x\<close> le show ?thesis by (simp add: js_le_def js_ge_def)
  next
    case NaN
    with le show ?thesis by (simp add: js_le_def js_ge_def)
  qed
next
  case PosInf
  assume le: "js_le s s'"
  with PosInf have "s' = PosInf"
    by (cases s') (simp_all add: js_le_def js_ge_def)
  with PosInf show ?thesis by simp
next
  case NegInf
  then show ?thesis by (simp add: getLetterGrade_infinite gradeRank_simps)
next
  case NaN
  assume "js_le s s'"
  with NaN show ?thesis by (simp add: js_le_def js_ge_def)
qed

text \<open>
  A score that is NaN fails every comparison and falls through to the last line.  It is
  the one value of the type \<open>number\<close> that is not a numeric score.
\<close>

lemma getLetterGrade_NaN: "getLetterGrade NaN = ''F'' \<and> \<not> js_lt NaN (Finite 4.0)"
  by (simp add: getLetterGrade_def js_ge_def)

text \<open>
  Claim C10.  For every numeric score, \<open>getLetterGrade\<close> returns the grade of the first
  threshold the score reaches: "A+" exactly from 9.5 up, "A" exactly on [9.0, 9.5), "A-" on
  [8.5, 9.0), "B+" on [8.0, 8.5), "B" on [7.5, 8.0), "B-" on [7.0, 7.5), "C+" on [6.5, 7.0),
  "C" on [6.0, 6.5), "C-" on [5.5, 6.0), "D+" on [5.0, 5.5), "D" on [4.0, 5.0) and "F"
  exactly below 4.0; and a score that is at least another score never gets a lower grade.
\<close>

theorem getLetterGrade_thresholds:
  assumes "numeric score"
  shows "(getLetterGrade score = ''A+'') = js_ge score (Finite 9.5)
    \<and> (getLetterGrade score = ''A'') = (js_ge score (Finite 9.0) \<and> js_lt score (Finite 9.5))
    \<and> (getLetterGrade score = ''A-'') = (js_ge score (Finite 8.5) \<and> js_lt score (Finite 9.0))
    \<and> (getLetterGrade score = ''B+'') = (js_ge score (Finite 8.0) \<and> js_lt score (Finite 8.5))
    \<and> (getLetterGrade score = ''B'') = (js_ge score (Finite 7.5) \<and> js_lt score (Finite 8.0))
    \<and> (getLetterGrade score = ''B-'') = (js_ge score (Finite 7.0) \<and> js_lt score (Finite 7.5))
    \<and> (getLetterGrade score = ''C+'') = (js_ge score (Finite 6.5) \<and> js_lt score (Finite 7.0))
    \<and> (getLetterGrade score = ''C'') = (js_ge score (Finite 6.0) \<and> js_lt score (Finite 6.5))
    \<and> (getLetterGrade score = ''C-'') = (js_ge score (Finite 5.5) \<and> js_lt score (Finite 6.0))
    \<and> (getLetterGrade score = ''D+'') = (js_ge score (Finite 5.0) \<and> js_lt score (Finite 5.5))
    \<and> (getLetterGrade score = ''D'') = (js_ge score (Finite 4.0) \<and> js_lt score (Finite 5.0))
    \<and> (getLetterGrade score = ''F'') = js_lt score (Finite 4.0)
    \<and> (\<forall>higher. js_le score higher \<longrightarrow>
          gradeRank (getLetterGrade score) \<le> gradeRank (getLetterGrade higher))"
proof -
  have mono: "\<forall>higher. js_le score higher \<longrightarrow>
      gradeRank (getLetterGrade score) \<le> gradeRank (getLetterGrade higher)"
    using gradeRank_mono by blast
  have iffs: "(getLetterGrade score = ''A+'') = js_ge score (Finite 9.5)
    \<and> (getLetterGrade score = ''A'') = (js_ge score (Finite 9.0) \<and> js_lt score (Finite 9.5))
    \<and> (getLetterGrade score = ''A-'') = (js_ge score (Finite 8.5) \<and> js_lt score (Finite 9.0))
    \<and> (getLetterGrade score = ''B+'') = (js_ge score (Finite 8.0) \<and> js_lt score (Finite 8.5))
    \<and> (getLetterGrade score = ''B'') = (js_ge score (Finite 7.5) \<and> js_lt score (Finite 8.0))
    \<and> (getLetterGrade score = ''B-'') = (js_ge score (Finite 7.0) \<and> js_lt score (Finite 7.5))
    \<and> (getLetterGrade score = ''C+'') = (js_ge score (Finite 6.5) \<and> js_lt score (Finite 7.0))
    \<and> (getLetterGrade score = ''C'') = (js_ge score (Finite 6.0) \<and> js_lt score (Finite 6.5))
    \<and> (getLetterGrade score = ''C-'') = (js_ge score (Finite 5.5) \<and> js_lt score (Finite 6.0))
    \<and> (getLetterGrade score = ''D+'') = (js_ge score (Finite 5.0) \<and> js_lt score (Finite 5.5))
    \<and> (getLetterGrade score = ''D'') = (js_ge score (Finite 4.0) \<and> js_lt score (Finite 5.0))
    \<and> (getLetterGrade score = ''F'') = js_lt score (Finite 4.0)"
  proof (cases score)
    case (Finite x)
    show ?thesis
      unfolding Finite getLetterGrade_Finite by (simp add: js_ge_def not_less)
  next
    case PosInf
    show ?thesis
      unfolding PosInf getLetterGrade_infinite by (simp add: js_ge_def)
  next
    case NegInf
    show ?thesis
      unfolding NegInf getLetterGrade_infinite by (simp add: js_ge_def)
  next
    case NaN
    with assms show ?thesis by (simp add: numeric_def)
  qed
  from iffs mono show ?thesis
    by (elim conjE) (intro conjI; assumption)
qed

theorem getLetterGrade_thresholds_witness:
  "numeric (Finite 8.7) \<and> getLetterGrade (Finite 8.7) = ''A-''
    \<and> js_ge (Finite 8.7) (Finite 8.5) \<and> js_lt (Finite 8.7) (Finite 9.0)
    \<and> js_le (Finite 8.7) (Finite 9.2)
    \<and> gradeRank (getLetterGrade (Finite 8.7)) \<le> gradeRank (getLetterGrade (Finite 9.2))"
proof -
  have n: "numeric (Finite 8.7)" by (simp add: numeric_def)
  have le: "js_le (Finite 8.7) (Finite 9.2)" by (simp add: js_le_def js_ge_def)
  note T = getLetterGrade_thresholds [OF n]
  from T have g: "getLetterGrade (Finite 8.7) = ''A-''" by (simp add: js_ge_def)
  from T have m: "\<forall>higher. js_le (Finite 8.7) higher \<longrightarrow>
      gradeRank (getLetterGrade (Finite 8.7)) \<le> gradeRank (getLetterGrade higher)"
    by (elim conjE)
  note r = m [rule_format, OF le]
  show ?thesis using n le g r by (simp add: js_ge_def)
qed

subsection \<open>Language distribution\<close>











subsection \<open>Issues by severity\<close>

lemma increment3_simps:
  "increment 0 [a, b, c] = [a\<lparr>count := count a + 1\<rparr>, b, c]"
  "increment 1 [a, b, c] = [a, b\<lparr>count := count b + 1\<rparr>, c]"
  "increment (Suc 0) [a, b, c] = [a, b\<lparr>count := count b + 1\<rparr>, c]"
  "increment 2 [a, b, c] = [a, b, c\<lparr>count := count c + 1\<rparr>]"
  by (simp_all add: increment_def eval_nat_numeral)

lemma countSeverity_step:
  "countSeverity chunk [a, b, c] =
     [a\<lparr>count := count a + (if js_lt (quality_score chunk) (Finite 5) then 1 else 0)\<rparr>,
      b\<lparr>count := count b + (if js_le (Finite 5) (quality_score chunk)
                                 \<and> js_lt (quality_score chunk) (Finite 7) then 1 else 0)\<rparr>,
      c\<lparr>count := count c + (if js_le (Finite 7) (quality_score chunk)
                                 \<and> js_lt (quality_score chunk) (Finite 9) then 1 else 0)\<rparr>]"
proof (cases "quality_score chunk")
  case (Finite x)
  then show ?thesis
    by (auto simp add: countSeverity_def increment3_simps js_le_def js_ge_def)
next
  case PosInf
  then show ?thesis by (simp add: countSeverity_def js_le_def js_ge_def)
next
  case NegInf
  then show ?thesis by (simp add: countSeverity_def increment3_simps js_le_def js_ge_def)
next
  case NaN
  then show ?thesis by (simp add: countSeverity_def js_le_def js_ge_def)
qed

lemma fold_countSeverity:
  "fold countSeverity chs [a, b, c] =
     [a\<lparr>count := count a + scoresWhere (\<lambda>q. js_lt q (Finite 5)) (map quality_score chs)\<rparr>,
      b\<lparr>count := count b + scoresWhere (\<lambda>q. js_le (Finite 5) q \<and> js_lt q (Finite 7))
                                 (map quality_score chs)\<rparr>,
      c\<lparr>count := count c + scoresWhere (\<lambda>q. js_le (Finite 7) q \<and> js_lt q (Finite 9))
                                 (map quality_score chs)\<rparr>]"
proof (induction chs arbitrary: a b c)
  case Nil
  show ?case by (simp add: scoresWhere_def)
next
  case (Cons ch chs)
  show ?case
    by (simp add: countSeverity_step Cons.IH scoresWhere_def)
qed

lemma fold_analyses:
  "fold (\<lambda>analysis. fold countSeverity (map snd (chunks analysis))) analyses issues =
     fold countSeverity (concat (map (\<lambda>analysis. map snd (chunks analysis)) analyses)) issues"
  by (induction analyses arbitrary: issues) simp_all

lemma qualityScores_concat:
  "map quality_score (concat (map (\<lambda>analysis. map snd (chunks analysis)) (map snd fileAnalyses)))
     = qualityScores fileAnalyses"
  by (simp add: qualityScores_def map_concat comp_def)

lemma issues_counted:
  "fold (\<lambda>analysis. fold countSeverity (map snd (chunks analysis))) (map snd fileAnalyses) issues0 =
     [\<lparr>name = ''Critical'', color = ''#ef4444'',
        count = scoresWhere (\<lambda>q. js_lt q (Finite 5)) (qualityScores fileAnalyses),
        percentage = 0\<rparr>,
      \<lparr>name = ''Major'', color = ''#f97316'',
        count = scoresWhere (\<lambda>q. js_le (Finite 5) q \<and> js_lt q (Finite 7))
                  (qualityScores fileAnalyses),
        percentage = 0\<rparr>,
      \<lparr>name = ''Minor'', color = ''#eab308'',
        count = scoresWhere (\<lambda>q. js_le (Finite 7) q \<and> js_lt q (Finite 9))
                  (qualityScores fileAnalyses),
        percentage = 0\<rparr>]"
  unfolding fold_analyses issues0_def fold_countSeverity qualityScores_concat by simp

lemma scoresWhere_split:
  "scoresWhere (\<lambda>q. js_lt q (Finite 5)) qs
     + scoresWhere (\<lambda>q. js_le (Finite 5) q \<and> js_lt q (Finite 7)) qs
     + scoresWhere (\<lambda>q. js_le (Finite 7) q \<and> js_lt q (Finite 9)) qs
   = scoresWhere (\<lambda>q. js_lt q (Finite 9)) qs"
proof (induction qs)
  case Nil
  show ?case by (simp add: scoresWhere_def)
next
  case (Cons q qs)
  have "(if js_lt q (Finite 5) then 1 else 0)
      + (if js_le (Finite 5) q \<and> js_lt q (Finite 7) then 1 else 0)
      + (if js_le (Finite 7) q \<and> js_lt q (Finite 9) then 1 else 0)
      = (if js_lt q (Finite 9) then 1 else (0::nat))"
    by (cases q) (auto simp add: js_le_def js_ge_def)
  with Cons.IH show ?case
    by (auto simp add: scoresWhere_def split: if_splits)
qed


lemma scoresWhere_rest:
  "scoresWhere (\<lambda>q. js_lt q (Finite 9)) qs + scoresWhere (\<lambda>q. js_ge q (Finite 9)) qs
     + scoresWhere (\<lambda>q. q = NaN) qs = length qs"
proof (induction qs)
  case Nil
  show ?case by (simp add: scoresWhere_def)
next
  case (Cons q qs)
  have "(if js_lt q (Finite 9) then 1 else 0) + (if js_ge q (Finite 9) then 1 else 0)
      + (if q = NaN then 1 else 0) = (1::nat)"
    by (cases q) (auto simp add: js_ge_def)
  with Cons.IH show ?case
    by (auto simp add: scoresWhere_def split: if_splits)
qed

lemma issues_total:
  "foldl (\<lambda>sum issue. sum + count issue) 0
     (fold (\<lambda>analysis. fold countSeverity (map snd (chunks analysis))) (map snd fileAnalyses) issues0)
   = scoresWhere (\<lambda>q. js_lt q (Finite 9)) (qualityScores fileAnalyses)"
  unfolding issues_counted
  using scoresWhere_split [of "qualityScores fileAnalyses"] by simp

text \<open>
  Claim C9.  For every \<open>file_analyses\<close> mapping, \<open>calculateIssuesBySeverity\<close> counts each chunk
  with \<open>quality_score < 5\<close> as Critical, with \<open>5 \<le> quality_score < 7\<close> as Major and with
  \<open>7 \<le> quality_score < 9\<close> as Minor; a chunk with \<open>quality_score \<ge> 9\<close> (or a score that is
  NaN) is counted in no bucket, so the counts and those chunks together make up all chunks;
  and when the total of the counts is zero, the result is the three buckets with count 0
  and percentage 0.
\<close>

theorem calculateIssuesBySeverity_buckets:
  "map (\<lambda>issue. (name issue, count issue)) (calculateIssuesBySeverity roundPercent fileAnalyses) =
     [(''Critical'', scoresWhere (\<lambda>q. js_lt q (Finite 5)) (qualityScores fileAnalyses)),
      (''Major'', scoresWhere (\<lambda>q. js_le (Finite 5) q \<and> js_lt q (Finite 7))
                    (qualityScores fileAnalyses)),
      (''Minor'', scoresWhere (\<lambda>q. js_le (Finite 7) q \<and> js_lt q (Finite 9))
                    (qualityScores fileAnalyses))]
   \<and> sum_list (map count (calculateIssuesBySeverity roundPercent fileAnalyses))
       + scoresWhere (\<lambda>q. js_ge q (Finite 9)) (qualityScores fileAnalyses)
       + scoresWhere (\<lambda>q. q = NaN) (qualityScores fileAnalyses)
       = length (qualityScores fileAnalyses)
   \<and> (sum_list (map count (calculateIssuesBySeverity roundPercent fileAnalyses)) = 0 \<longrightarrow>
        calculateIssuesBySeverity roundPercent fileAnalyses =
          [\<lparr>name = ''Critical'', color = ''#ef4444'', count = 0, percentage = 0\<rparr>,
           \<lparr>name = ''Major'', color = ''#f97316'', count = 0, percentage = 0\<rparr>,
           \<lparr>name = ''Minor'', color = ''#eab308'', count = 0, percentage = 0\<rparr>])"
proof -
  let ?qs = "qualityScores fileAnalyses"
  let ?r = "calculateIssuesBySeverity roundPercent fileAnalyses"
  have counts: "map (\<lambda>issue. (name issue, count issue)) ?r =
     [(''Critical'', scoresWhere (\<lambda>q. js_lt q (Finite 5)) ?qs),
      (''Major'', scoresWhere (\<lambda>q. js_le (Finite 5) q \<and> js_lt q (Finite 7)) ?qs),
      (''Minor'', scoresWhere (\<lambda>q. js_le (Finite 7) q \<and> js_lt q (Finite 9)) ?qs)]"
    unfolding calculateIssuesBySeverity_def Let_def issues_total
    by (simp add: issues_counted)
  have "sum_list (map count ?r) = sum_list (map snd (map (\<lambda>issue. (name issue, count issue)) ?r))"
    by (simp add: comp_def)
  also have "\<dots> = scoresWhere (\<lambda>q. js_lt q (Finite 9)) ?qs"
    unfolding counts using scoresWhere_split [of ?qs] by simp
  finally have total: "sum_list (map count ?r) = scoresWhere (\<lambda>q. js_lt q (Finite 9)) ?qs" .
  have rest: "sum_list (map count ?r) + scoresWhere (\<lambda>q. js_ge q (Finite 9)) ?qs
       + scoresWhere (\<lambda>q. q = NaN) ?qs = length ?qs"
    unfolding total by (rule scoresWhere_rest)
  have zero: "sum_list (map count ?r) = 0 \<longrightarrow> ?r =
          [\<lparr>name = ''Critical'', color = ''#ef4444'', count = 0, percentage = 0\<rparr>,
           \<lparr>name = ''Major'', color = ''#f97316'', count = 0, percentage = 0\<rparr>,
           \<lparr>name = ''Minor'', color = ''#eab308'', count = 0, percentage = 0\<rparr>]"
  proof
    assume "sum_list (map count ?r) = 0"
    with total have z: "scoresWhere (\<lambda>q. js_lt q (Finite 9)) ?qs = 0" by simp
    with scoresWhere_split [of ?qs]
    have "scoresWhere (\<lambda>q. js_lt q (Finite 5)) ?qs = 0"
      "scoresWhere (\<lambda>q. js_le (Finite 5) q \<and> js_lt q (Finite 7)) ?qs = 0"
      "scoresWhere (\<lambda>q. js_le (Finite 7) q \<and> js_lt q (Finite 9)) ?qs = 0"
      by simp_all
    with z show "?r =
          [\<lparr>name = ''Critical'', color = ''#ef4444'', count = 0, percentage = 0\<rparr>,
           \<lparr>name = ''Major'', color = ''#f97316'', count = 0, percentage = 0\<rparr>,
           \<lparr>name = ''Minor'', color = ''#eab308'', count = 0, percentage = 0\<rparr>]"
      unfolding calculateIssuesBySeverity_def Let_def issues_total
      by (simp add: issues_counted)
  qed
  from counts rest zero show ?thesis
    by (intro conjI)
qed

lemma example_counts:
  "map (\<lambda>issue. (name issue, count issue))
     (calculateIssuesBySeverity (\<lambda>c t. 0)
        [(''a.py'', exampleFile [(''c1'', exampleChunk 9.5), (''c2'', exampleChunk 10)])])
   = [(''Critical'', 0), (''Major'', 0), (''Minor'', 0)]"
  by (simp add: calculateIssuesBySeverity_def exampleFile_def exampleChunk_def issues0_def
      countSeverity_def Let_def)

theorem calculateIssuesBySeverity_buckets_witness:
  "sum_list (map count (calculateIssuesBySeverity (\<lambda>c t. 0)
        [(''a.py'', exampleFile [(''c1'', exampleChunk 9.5), (''c2'', exampleChunk 10)])])) = 0
   \<and> calculateIssuesBySeverity (\<lambda>c t. 0)
        [(''a.py'', exampleFile [(''c1'', exampleChunk 9.5), (''c2'', exampleChunk 10)])] =
          [\<lparr>name = ''Critical'', color = ''#ef4444'', count = 0, percentage = 0\<rparr>,
           \<lparr>name = ''Major'', color = ''#f97316'', count = 0, percentage = 0\<rparr>,
           \<lparr>name = ''Minor'', color = ''#eab308'', count = 0, percentage = 0\<rparr>]"
proof -
  let ?fa = "[(''a.py'', exampleFile [(''c1'', exampleChunk 9.5), (''c2'', exampleChunk 10)])]"
  have "sum_list (map count (calculateIssuesBySeverity (\<lambda>c t. 0) ?fa))
      = sum_list (map snd (map (\<lambda>issue. (name issue, count issue))
          (calculateIssuesBySeverity (\<lambda>c t. 0) ?fa)))"
    by (simp add: comp_def)
  then have z: "sum_list (map count (calculateIssuesBySeverity (\<lambda>c t. 0) ?fa)) = 0"
    unfolding example_counts by simp
  note T = calculateIssuesBySeverity_buckets [of "\<lambda>c t. 0" ?fa]
  from T have imp: "sum_list (map count (calculateIssuesBySeverity (\<lambda>c t. 0) ?fa)) = 0 \<longrightarrow>
        calculateIssuesBySeverity (\<lambda>c t. 0) ?fa =
          [\<lparr>name = ''Critical'', color = ''#ef4444'', count = 0, percentage = 0\<rparr>,
           \<lparr>name = ''Major'', color = ''#f97316'', count = 0, percentage = 0\<rparr>,
           \<lparr>name = ''Minor'', color = ''#eab308'', count = 0, percentage = 0\<rparr>]"
    by (elim conjE)
  from z imp [rule_format, OF z] show ?thesis by (intro conjI)
qed

section \<open>Verified properties: chat interface\<close>

subsection \<open>A failed request\<close>









subsection \<open>An empty question\<close>

lemma blankChat_input: "input blankChat = [CHR 0x20, CHR 0x09, CHR 0x0A]"
  by (simp add: blankChat_def chatRun_def initialChat_def selectRepo_def repoEffect_def truthy_def)

text \<open>
  Claim C4.  When the input is empty or only white space (its trim is empty),
  \<open>handleSendMessage\<close> returns at once: the state after it is the state before it, so no
  request is sent or put in flight, and the message list, the conversation id, the loading
  flag and the toasts are unchanged.
\<close>

theorem handleSendMessage_empty_input:
  assumes "js_trim (input st) = []"
  shows "handleSendMessage now st = st"
  using assms by (simp add: handleSendMessage_def)

theorem handleSendMessage_empty_input_witness:
  "js_trim (input blankChat) = [] \<and> handleSendMessage 2 blankChat = blankChat
   \<and> sent (handleSendMessage 2 blankChat) = []"
proof -
  have t: "js_trim (input blankChat) = []"
    unfolding blankChat_input by (simp add: js_trim_def js_whitespace_def)
  have s: "sent blankChat = []"
    by (simp add: blankChat_def chatRun_def initialChat_def selectRepo_def repoEffect_def truthy_def)
  from t s handleSendMessage_empty_input [OF t, of 2] show ?thesis by simp
qed

subsection \<open>Conversation ids and repositories\<close>

text \<open>
  Claim C5, at a concrete run.  The user asks about octo/alpha, selects octo/beta while
  the request is in flight, and the response then arrives with the conversation id
  "conv-alpha".  The effect on \<open>selectedRepo\<close> had reset the id to null, but the late response
  stores "conv-alpha" again, and the next question, about octo/beta, is sent with the
  conversation id that was issued for octo/alpha.
\<close>

theorem stale_response_crosses_repositories:
  "map (\<lambda>r. (repository r, conversation_id r)) (sent crossedChat) =
     [(''octo/alpha'', None), (''octo/beta'', Some ''conv-alpha'')]
   \<and> map (\<lambda>a. (repository (fst a), snd a)) (answered crossedChat) =
     [(''octo/alpha'', Ok \<lparr>response = Some ''a1'', issued_conversation_id = Some ''conv-alpha''\<rparr>)]
   \<and> selectedRepo crossedChat = Some ''octo/beta''
   \<and> conversationId crossedChat = Some ''conv-alpha''
   \<and> \<not> issuedFor (answered crossedChat) ''conv-alpha'' ''octo/beta''
   \<and> \<not> idsMatchRepositories crossedChat"
  by (simp add: crossedChat_def chatRun_def initialChat_def selectRepo_def repoEffect_def
      truthy_def handleSendMessage_def js_trim_def js_whitespace_def settle_def afterFetch_def
      chatRequest_def Let_def issuedFor_def idsMatchRepositories_def)

text \<open>
  It takes a response that arrives late to part the ids from the repositories: as long
  as the repository is changed only while no request is in flight, every request sent
  with a conversation id names a repository that id was issued for.
\<close>

lemma ids_iff:
  "idsMatchRepositories st =
     ((\<forall>cid. conversationId st = Some cid \<longrightarrow>
          (\<exists>repo. selectedRepo st = Some repo \<and> issuedFor (answered st) cid repo))
      \<and> (\<forall>req \<in> set (inFlight st). selectedRepo st = Some (repository req))
      \<and> (\<forall>req \<in> set (sent st). \<forall>cid. conversation_id req = Some cid \<longrightarrow>
            issuedFor (answered st) cid (repository req)))"
  by (cases "selectedRepo st")
    (auto simp add: idsMatchRepositories_def list_all_iff split: option.splits)

lemma issuedFor_append:
  "issuedFor (responses @ extra) cid repo
     = (issuedFor responses cid repo \<or> issuedFor extra cid repo)"
  by (simp add: issuedFor_def)

lemma issuedFor_last:
  "issued_conversation_id data = Some cid \<Longrightarrow>
     issuedFor (responses @ [(req, Ok data)]) cid (repository req)"
  by (simp add: issuedFor_def)

lemma ids_initial: "idsMatchRepositories (initialChat env)"
  by (simp add: idsMatchRepositories_def initialChat_def)

lemma ids_submit:
  assumes "idsMatchRepositories st"
  shows "idsMatchRepositories (handleSendMessage now st)"
proof (cases "js_trim (input st) = [] \<or> \<not> truthy (selectedRepo st)")
  case True
  with assms show ?thesis by (simp add: handleSendMessage_def)
next
  case False
  then obtain repo where repo: "selectedRepo st = Some repo"
    by (cases "selectedRepo st") (simp_all add: truthy_def)
  show ?thesis
  proof (cases "truthy (githubToken st)")
    case False
    with \<open>\<not> (js_trim (input st) = [] \<or> \<not> truthy (selectedRepo st))\<close> assms
    show ?thesis
      unfolding ids_iff by (simp add: handleSendMessage_def)
  next
    case True
    with \<open>\<not> (js_trim (input st) = [] \<or> \<not> truthy (selectedRepo st))\<close> assms repo
    show ?thesis
      unfolding ids_iff by (auto simp add: handleSendMessage_def chatRequest_def)
  qed
qed

lemma ids_select:
  assumes "idsMatchRepositories st" and "inFlight st = []"
  shows "idsMatchRepositories (selectRepo repo now st)"
  using assms unfolding ids_iff
  by (auto simp add: selectRepo_def repoEffect_def)

lemma ids_settle:
  assumes "idsMatchRepositories st"
  shows "idsMatchRepositories (settle k outcome now st)"
proof (cases "k < length (inFlight st)")
  case False
  with assms show ?thesis by (simp add: settle_def)
next
  case True
  let ?st1 = "st\<lparr>inFlight := take k (inFlight st) @ drop (Suc k) (inFlight st),
                  answered := answered st @ [(inFlight st ! k, outcome)]\<rparr>"
  from assms True have rk: "selectedRepo st = Some (repository (inFlight st ! k))"
    unfolding ids_iff by simp
  have base: "idsMatchRepositories ?st1"
    using assms unfolding ids_iff
    by (auto simp add: issuedFor_append dest: in_set_takeD in_set_dropD)
  show ?thesis
  proof (cases outcome)
    case (Thrown msg)
    with True base show ?thesis
      unfolding ids_iff by (simp add: settle_def afterFetch_def catchBlock_def)
  next
    case (NotOk statusText)
    with True base show ?thesis
      unfolding ids_iff by (simp add: settle_def afterFetch_def catchBlock_def)
  next
    case (Ok data)
    show ?thesis
    proof (cases "truthy (issued_conversation_id data)")
      case False
      with True base Ok show ?thesis
        unfolding ids_iff by (simp add: settle_def afterFetch_def Let_def)
    next
      case t: True
      then obtain cid where cid: "issued_conversation_id data = Some cid"
        by (cases "issued_conversation_id data") (simp_all add: truthy_def)
      have new: "issuedFor (answered st @ [(inFlight st ! k, Ok data)]) cid
          (repository (inFlight st ! k))"
        using cid by (rule issuedFor_last)
      from True base Ok t cid new rk show ?thesis
        unfolding ids_iff
        by (simp add: settle_def afterFetch_def Let_def)
    qed
  qed
qed

lemma ids_step:
  assumes "idsMatchRepositories st" and "inOrder [e] st"
  shows "idsMatchRepositories (chatStep e st)"
proof (cases e)
  case (SelectRepo repo now)
  with assms show ?thesis by (simp add: ids_select)
next
  case (SetToken token)
  with assms show ?thesis unfolding ids_iff by simp
next
  case (SetInput typed)
  with assms show ?thesis unfolding ids_iff by simp
next
  case (Submit now)
  with assms show ?thesis by (simp add: ids_submit)
next
  case (Settle k outcome now)
  with assms show ?thesis by (simp add: ids_settle)
qed

lemma ids_run:
  assumes "idsMatchRepositories st" and "inOrder events st"
  shows "idsMatchRepositories (chatRun events st)"
  using assms
proof (induction events arbitrary: st)
  case Nil
  then show ?case by (simp add: chatRun_def)
next
  case (Cons e es)
  from Cons.prems have "inOrder [e] st" "inOrder es (chatStep e st)" by simp_all
  from ids_step [OF Cons.prems(1) this(1)] this(2)
  have "idsMatchRepositories (chatRun es (chatStep e st))" by (rule Cons.IH)
  then show ?case by (simp add: chatRun_def)
qed

lemma requests_name_the_issuing_repository:
  assumes "inOrder events (initialChat env)"
    and "req \<in> set (sent (chatRun events (initialChat env)))"
    and "conversation_id req = Some cid"
  shows "issuedFor (answered (chatRun events (initialChat env))) cid (repository req)"
  using ids_run [OF ids_initial assms(1)] assms(2,3)
  unfolding ids_iff by blast

section \<open>Verified properties: repository sidebar\<close>

subsection \<open>Transport of the token\<close>

text \<open>
  Claim C3.  The two versions of \<open>fetchRepositories\<close> call \<open>GET /api/repositories\<close> and
  transport the GitHub token differently: the first sends it as a bearer credential in the
  header \<open>Authorization\<close> and sends no header \<open>GitHub-Token\<close>; the second sends it in the
  header \<open>GitHub-Token\<close> and sends no \<open>Authorization\<close>.  For the same truthy token both send
  that very string (and for a token that is null or empty neither sends a request).
\<close>

theorem repositories_token_transport:
  "Option.bind (repositoriesRequestBearer envA token) bearerToken
     = (if truthy token then token else None)
   \<and> Option.bind (repositoriesRequestCustom envB token) customToken
     = (if truthy token then token else None)
   \<and> Option.bind (repositoriesRequestBearer envA token) customToken = None
   \<and> Option.bind (repositoriesRequestCustom envB token) bearerToken = None
   \<and> map_option http_method (repositoriesRequestBearer envA token)
     = (if truthy token then Some ''GET'' else None)
   \<and> map_option http_method (repositoriesRequestCustom envB token)
     = (if truthy token then Some ''GET'' else None)
   \<and> map_option http_url (repositoriesRequestBearer envA token)
     = (if truthy token then Some (backendApiUrl envA @ ''/api/repositories'') else None)
   \<and> map_option http_url (repositoriesRequestCustom envB token)
     = (if truthy token then Some (API_BASE_URL envB @ ''/api/repositories'') else None)"
  by (cases token)
    (simp_all add: repositoriesRequestBearer_def repositoriesRequestCustom_def bearerToken_def
      customToken_def truthy_def)

subsection \<open>Shapes of the response body\<close>
















section \<open>Verified properties: backend as specified\<close>

subsection \<open>Fresh conversation ids\<close>

lemma store_get_Inr:
  assumes "store_get cid store = Inr c"
  shows "c \<in> set store \<and> conv_id c = cid"
proof -
  from assms have "find (\<lambda>c. conv_id c = cid) store = Some c"
    by (simp add: store_get_def split: option.splits)
  then show ?thesis
    by (auto simp add: find_Some_iff)
qed

lemma issuedSoFar_create:
  assumes "issuedSoFar store"
  shows "issuedSoFar (snd (store_create repo store))"
  using assms
  by (auto simp add: issuedSoFar_def store_create_def list_all_iff)

lemma store_append_Inr:
  assumes "store_append cid msg store = Inr store'"
  shows "length store' = length store \<and> map conv_id store' = map conv_id store"
proof -
  from assms have "store' =
      map (\<lambda>c. if conv_id c = cid then c\<lparr>conv_messages := conv_messages c @ [msg]\<rparr> else c) store"
    by (simp add: store_append_def split: sum.splits)
  then show ?thesis by (simp add: comp_def if_distrib cong: if_cong)
qed

lemma issuedSoFar_ids:
  "issuedSoFar store = (\<forall>n \<in> set (map conv_id store). n \<le> length store)"
  by (simp add: issuedSoFar_def list_all_iff)

lemma issuedSoFar_append:
  assumes "issuedSoFar store" and "store_append cid msg store = Inr store'"
  shows "issuedSoFar store'"
  using assms(1) store_append_Inr [OF assms(2)]
  unfolding issuedSoFar_ids by simp

lemma resolveConversation_props:
  assumes "issuedSoFar store" and "resolveConversation call store = (cid, store1)"
  shows "issuedSoFar store1 \<and> length store \<le> length store1 \<and> cid \<le> length store1
    \<and> (call_conversationId call = None \<longrightarrow> length store < cid)"
proof (cases "call_conversationId call")
  case None
  with assms(2) have "store_create (call_repository call) store = (cid, store1)"
    by (simp add: resolveConversation_def)
  then have c: "cid = Suc (length store)" "store1 = snd (store_create (call_repository call) store)"
    "length store1 = Suc (length store)"
    by (auto simp add: store_create_def)
  from issuedSoFar_create [OF assms(1), of "call_repository call"] c None
  show ?thesis by simp
next
  case (Some wanted)
  show ?thesis
  proof (cases "store_get wanted store")
    case (Inr c)
    with Some assms(2) have e: "cid = wanted" "store1 = store"
      by (simp_all add: resolveConversation_def)
    from store_get_Inr [OF Inr] assms(1) have "wanted \<le> length store"
      by (auto simp add: issuedSoFar_def list_all_iff)
    with e assms(1) Some show ?thesis by simp
  next
    case (Inl err)
    with Some assms(2) have "store_create (call_repository call) store = (cid, store1)"
      by (simp add: resolveConversation_def)
    then have c: "cid = Suc (length store)"
      "store1 = snd (store_create (call_repository call) store)"
      "length store1 = Suc (length store)"
      by (auto simp add: store_create_def)
    from issuedSoFar_create [OF assms(1), of "call_repository call"] c Some
    show ?thesis by simp
  qed
qed

lemma chat_step:
  assumes "issuedSoFar store"
  shows "issuedSoFar (fst (chat agent call store))
    \<and> length store \<le> length (fst (chat agent call store))
    \<and> (\<forall>answer cid. snd (chat agent call store) = Inr (answer, cid) \<longrightarrow>
          cid \<le> length (fst (chat agent call store))
          \<and> (call_conversationId call = None \<longrightarrow> length store < cid))"
proof (cases "call_question call = []")
  case True
  with assms show ?thesis by (simp add: chat_def)
next
  case False
  obtain cid store1 where r: "resolveConversation call store = (cid, store1)"
    by (cases "resolveConversation call store")
  note p = resolveConversation_props [OF assms r]
  let ?q = "\<lparr>stored_role = User, stored_content = call_question call,
              stored_timestamp = call_time call\<rparr>"
  show ?thesis
  proof (cases "store_append cid ?q store1")
    case (Inl e)
    with False r p show ?thesis by (simp add: chat_def)
  next
    case (Inr store2)
    from p have i1: "issuedSoFar store1" by simp
    note a2 = store_append_Inr [OF Inr]
    note i2 = issuedSoFar_append [OF i1 Inr]
    show ?thesis
    proof (cases "agent (call_repository call) (history cid store2)")
      case AgentFailed
      with False r Inr p a2 i2 show ?thesis by (simp add: chat_def)
    next
      case (Answer answer)
      let ?a = "\<lparr>stored_role = Assistant, stored_content = answer,
                  stored_timestamp = call_time call\<rparr>"
      show ?thesis
      proof (cases "store_append cid ?a store2")
        case (Inl e)
        with False r \<open>store_append cid ?q store1 = Inr store2\<close> Answer p a2 i2
        show ?thesis by (simp add: chat_def)
      next
        case (Inr store3)
        note a3 = store_append_Inr [OF Inr]
        note i3 = issuedSoFar_append [OF i2 Inr]
        from False r \<open>store_append cid ?q store1 = Inr store2\<close> Answer Inr p a2 a3 i3
        show ?thesis by (simp add: chat_def)
      qed
    qed
  qed
qed

lemma fresh_after:
  assumes "issuedSoFar store" and "j < length calls"
    and "call_conversationId (calls ! j) = None"
    and "chatCalls agent store calls ! j = Inr (answer, cid)"
  shows "length store < cid"
  using assms
proof (induction calls arbitrary: store j)
  case Nil
  then show ?case by simp
next
  case (Cons call calls)
  note s = chat_step [OF Cons.prems(1), of agent call]
  show ?case
  proof (cases j)
    case 0
    with Cons.prems s show ?thesis by simp
  next
    case (Suc k)
    with Cons.prems have "k < length calls" "call_conversationId (calls ! k) = None"
      "chatCalls agent (fst (chat agent call store)) calls ! k = Inr (answer, cid)"
      by simp_all
    with Cons.IH [of "fst (chat agent call store)" k] s
    have "length (fst (chat agent call store)) < cid" by simp
    with s show ?thesis by simp
  qed
qed

lemma later_id_greater:
  assumes "issuedSoFar store" and "i < j" and "j < length calls"
    and "call_conversationId (calls ! j) = None"
    and "chatCalls agent store calls ! i = Inr (answer_i, id_i)"
    and "chatCalls agent store calls ! j = Inr (answer_j, id_j)"
  shows "id_i < id_j"
  using assms
proof (induction calls arbitrary: store i j)
  case Nil
  then show ?case by simp
next
  case (Cons call calls)
  note s = chat_step [OF Cons.prems(1), of agent call]
  from Cons.prems(2) obtain k where j: "j = Suc k" by (cases j) simp_all
  with Cons.prems have k: "k < length calls" "call_conversationId (calls ! k) = None"
    "chatCalls agent (fst (chat agent call store)) calls ! k = Inr (answer_j, id_j)"
    by simp_all
  from s have i': "issuedSoFar (fst (chat agent call store))" by simp
  show ?case
  proof (cases i)
    case 0
    with Cons.prems(5) have "snd (chat agent call store) = Inr (answer_i, id_i)" by simp
    with s have "id_i \<le> length (fst (chat agent call store))" by simp
    moreover from fresh_after [OF i' k] have "length (fst (chat agent call store)) < id_j" .
    ultimately show ?thesis by simp
  next
    case (Suc h)
    with Cons.prems(2,5) j have "h < k"
      "chatCalls agent (fst (chat agent call store)) calls ! h = Inr (answer_i, id_i)"
      by simp_all
    from Cons.IH [OF i' this(1) k(1) k(2) this(2) k(3)] show ?thesis .
  qed
qed

lemma demoCalls_results:
  "chatCalls echoAgent [] demoCalls =
     [Inr (''About octo/demo'', 1), Inr (''About octo/demo'', 1), Inr (''About octo/other'', 2)]"
  by (simp add: demoCalls_def chat_def resolveConversation_def store_create_def store_get_def
      store_append_def echoAgent_def Let_def)

text \<open>
  Claim C6.  For every sequence of \<open>chat\<close> calls on a store that starts empty, a call made with
  no conversation id that returns a conversation id returns one that differs from the id
  returned by every earlier call.
\<close>

theorem chat_without_id_returns_fresh_id:
  assumes "i < j" and "j < length calls"
    and "call_conversationId (calls ! j) = None"
    and "chatCalls agent [] calls ! i = Inr (answer_i, id_i)"
    and "chatCalls agent [] calls ! j = Inr (answer_j, id_j)"
  shows "id_i \<noteq> id_j"
proof -
  have "issuedSoFar []" by (simp add: issuedSoFar_def)
  from later_id_greater [OF this assms] show ?thesis by simp
qed

theorem chat_without_id_returns_fresh_id_witness:
  "(1::nat) < 2 \<and> 2 < length demoCalls \<and> call_conversationId (demoCalls ! 2) = None
   \<and> chatCalls echoAgent [] demoCalls ! 1 = Inr (''About octo/demo'', 1)
   \<and> chatCalls echoAgent [] demoCalls ! 2 = Inr (''About octo/other'', 2)
   \<and> (1::nat) \<noteq> 2"
proof -
  have a: "(1::nat) < 2" by simp
  have b: "2 < length demoCalls" by (simp add: demoCalls_def)
  have c: "call_conversationId (demoCalls ! 2) = None" by (simp add: demoCalls_def)
  have d: "chatCalls echoAgent [] demoCalls ! 1 = Inr (''About octo/demo'', 1)"
    unfolding demoCalls_results by simp
  have e: "chatCalls echoAgent [] demoCalls ! 2 = Inr (''About octo/other'', 2)"
    unfolding demoCalls_results by simp
  from chat_without_id_returns_fresh_id [OF a b c d e] a b c d e show ?thesis by simp
qed

subsection \<open>Health endpoint\<close>


end
